theory Spec2Isabelle
  imports Main "HOL-Library.AList"
begin

section \<open>The pinus RPC client (pinus-rpc/lib/rpc-client/client.ts)\<close>

text \<open>
  A shallow embedding of \<^verbatim>\<open>client.ts\<close>: the client object is a record, every
  method is a function from the client to the updated client, and everything a method
  does beyond changing the client (log lines, calls into the mail station, calls of the
  user's callback) is appended to a trace. The mail station, the router module, the
  loader and the \<^verbatim>\<open>SCHEDULE\<close> constants live outside this file of the repository and
  are parameters of the functions that use them.
\<close>

subsection \<open>Values, errors and messages\<close>

text \<open>\<^verbatim>\<open>new Error(message)\<close>.\<close>

datatype error = Error string

text \<open>The values a caller can pass where the source says \<^verbatim>\<open>any\<close>.\<close>

datatype jsval =
    JUndefined
  | JNull
  | JBoolean bool
  | JNumber int
  | JString string
  | JObject nat
  | JError error

text \<open>Client states: \<^verbatim>\<open>STATE_INITED = 1\<close>, \<^verbatim>\<open>STATE_STARTED = 2\<close>, \<^verbatim>\<open>STATE_CLOSED = 3\<close>.\<close>

datatype client_state = STATE_INITED | STATE_STARTED | STATE_CLOSED

fun state_num :: "client_state \<Rightarrow> nat" where
  "state_num STATE_INITED = 1"
| "state_num STATE_STARTED = 2"
| "state_num STATE_CLOSED = 3"

record rpc_msg =
  namespace :: string
  serverType :: string
  service :: string
  method_name :: string
  args :: "jsval list"

text \<open>\<^verbatim>\<open>RpcServerInfo\<close>: only \<^verbatim>\<open>id\<close> is read in this file.\<close>

record rpc_server_info =
  srv_id :: string
  srv_serverType :: string

text \<open>\<^verbatim>\<open>RemoteServerCode\<close>, the proxy description record \<^verbatim>\<open>{namespace, serverType, path}\<close>.\<close>

record remote_server_code =
  rec_namespace :: string
  rec_serverType :: string
  rec_path :: string

text \<open>
  \<^verbatim>\<open>RouteContext.getServersByType\<close>: \<open>None\<close> is a falsy result (\<^verbatim>\<open>undefined\<close>,
  \<^verbatim>\<open>null\<close>); an array, also the empty one, is truthy in JavaScript and is \<open>Some\<close>.
\<close>

type_synonym route_context = "string \<Rightarrow> rpc_server_info list option"

text \<open>
  What a router passes to its callback \<^verbatim>\<open>cb(err, serverId)\<close>; \<open>RouteNever\<close> when the
  callback is not called.
\<close>

datatype route_reply = RouteNever | RouteCb "error option" string

text \<open>
  A custom route function \<^verbatim>\<open>route.call(target, routeParam, msg, routeContext, cb)\<close>: the
  receiver \<^verbatim>\<open>target\<close> is \<open>None\<close> for \<^verbatim>\<open>null\<close> and \<open>Some i\<close> for the router object \<open>i\<close>.
\<close>

type_synonym route_fn =
  "nat option \<Rightarrow> jsval \<Rightarrow> rpc_msg \<Rightarrow> route_context option \<Rightarrow> route_reply"

text \<open>
  The shapes \<^verbatim>\<open>client.router\<close> can have. The constructor stores
  \<^verbatim>\<open>opts.router || router.df\<close>, so the field is never falsy: it is a function, an object
  \<open>i\<close> whose \<^verbatim>\<open>route\<close> property is a function (\<open>Some f\<close>) or is not (\<open>None\<close>), or some
  other truthy value, on which \<^verbatim>\<open>.route\<close> reads \<^verbatim>\<open>undefined\<close>.
\<close>

datatype router_shape =
    RouterFunction route_fn
  | RouterObject nat "route_fn option"
  | RouterOther jsval

text \<open>\<^verbatim>\<open>opts.context\<close>: the part that is read, \<^verbatim>\<open>context.serverId\<close>.\<close>

record app_context =
  ctx_serverId :: "string option"

text \<open>
  \<^verbatim>\<open>RpcClientOpts\<close>. Every field is optional; \<open>None\<close> is an absent (falsy) field. The
  fields that only the mail station reads (\<^verbatim>\<open>servers\<close>, \<^verbatim>\<open>mailboxFactory\<close>,
  \<^verbatim>\<open>station\<close>, \<^verbatim>\<open>hashFieldIndex\<close>) are opaque handles.
\<close>

record rpc_client_opts =
  o_context :: "app_context option"
  o_routeContext :: "route_context option"
  o_router :: "router_shape option"
  o_routerType :: "string option"
  o_rpcDebugLog :: "bool option"
  clientId :: "string option"
  o_servers :: "nat option"
  o_mailboxFactory :: "nat option"
  rpcLogger :: "nat option"
  o_station :: "nat option"
  hashFieldIndex :: "nat option"

text \<open>
  A module that \<^verbatim>\<open>Loader.load\<close> found: a handle for the module object and the names of
  the functions it exports.
\<close>

record loaded_module =
  m_handle :: nat
  m_methods :: "string list"

text \<open>
  A proxy object: what \<^verbatim>\<open>Proxy.create\<close> was given for one service,
  \<^verbatim>\<open>{service, origin, attach}\<close> (and \<^verbatim>\<open>proxyCB\<close> bound to the client, which is the same
  for every proxy of a client), and the names of the methods the object has.
\<close>

record proxy_obj =
  p_service :: string
  p_origin :: nat
  p_attach :: remote_server_code
  p_methods :: "string list"

text \<open>
  Modelled from the spec: \<^verbatim>\<open>Proxy.create\<close> (\<^verbatim>\<open>../util/proxy\<close>) is not part of the sources.
  The spec: for every exported service name \<^verbatim>\<open>addProxy\<close> "builds one proxy object whose
  every method, when invoked, performs" the dispatch; the registry maps a service name
  to a "set of callable methods". So the proxy object of a service has the methods of
  the module it is made from.
\<close>

definition Proxy_create ::
  "string \<Rightarrow> loaded_module \<Rightarrow> remote_server_code \<Rightarrow> proxy_obj"
where
  "Proxy_create srv origin attach =
     \<lparr> p_service = srv, p_origin = m_handle origin, p_attach = attach,
       p_methods = m_methods origin \<rparr>"

text \<open>
  The own properties of a JavaScript object used as a dictionary are an association
  list; the order of the list plays no part in what a key maps to.
  \<^verbatim>\<open>Proxies = {[namespace]: {[serverType]: {[attr]: Function}}}\<close>.
\<close>

type_synonym proxy_entry = "(string \<times> proxy_obj) list"
type_synonym proxies_t = "(string \<times> (string \<times> proxy_entry) list) list"

text \<open>The fields of \<^verbatim>\<open>class RpcClient\<close> that this file reads or writes.\<close>

record rpc_client =
  c_context :: "app_context option"
  c_routeContext :: "route_context option"
  router :: router_shape
  routerType :: "string option"
  rpcDebugLog :: "bool option"
  opts :: rpc_client_opts
  proxies :: proxies_t
  state :: client_state

subsection \<open>Effects\<close>

text \<open>\<^verbatim>\<open>new Tracer(rpcLogger, rpcDebugLog, clientId, serverId, msg)\<close>.\<close>

record tracer =
  t_logger :: "nat option"
  t_enable :: "bool option"
  t_source :: "string option"
  t_remote :: string
  t_msg :: rpc_msg

text \<open>The operations of the mail station (\<^verbatim>\<open>this._station\<close>) that the client calls.\<close>

datatype station_call =
    Start
  | On string
  | Stop bool
  | Dispatch "tracer option" string rpc_msg rpc_client_opts

text \<open>
  One observable effect. \<open>Rejection\<close> is a \<^verbatim>\<open>Promise.reject(err)\<close> whose promise is
  dropped by the code that made it; \<open>UserCallback\<close> is a call of the callback handed to
  \<^verbatim>\<open>start\<close>.
\<close>

datatype effect =
    LogError string "jsval list"
  | LogWarn string
  | TracerInfo string string
  | TracerError string string
  | Station station_call
  | Rejection error
  | UserCallback "error option"

text \<open>A trace pairs each effect with the client state at the moment it happens.\<close>

type_synonym trace = "(client_state \<times> effect) list"

definition emit :: "rpc_client \<Rightarrow> effect \<Rightarrow> trace" where
  "emit c e = [(state c, e)]"

text \<open>The servers a trace dispatches to, with the messages, in order.\<close>

fun dispatches :: "trace \<Rightarrow> (string \<times> rpc_msg) list" where
  "dispatches [] = []"
| "dispatches ((s, Station (Dispatch t sid m ops)) # tr) = (sid, m) # dispatches tr"
| "dispatches (e # tr) = dispatches tr"

text \<open>The number of times a trace calls the mail station's \<^verbatim>\<open>start\<close>.\<close>

fun station_starts :: "trace \<Rightarrow> nat" where
  "station_starts [] = 0"
| "station_starts ((s, Station Start) # tr) = Suc (station_starts tr)"
| "station_starts (e # tr) = station_starts tr"

fun station_stops :: "trace \<Rightarrow> nat" where
  "station_stops [] = 0"
| "station_stops ((s, Station (Stop f)) # tr) = Suc (station_stops tr)"
| "station_stops (e # tr) = station_stops tr"

subsection \<open>The router module and the schedule constants\<close>

text \<open>A built-in strategy \<^verbatim>\<open>method.call(null, client, serverType, msg, cb)\<close>.\<close>

type_synonym strategy = "rpc_client \<Rightarrow> string \<Rightarrow> rpc_msg \<Rightarrow> route_reply"

text \<open>\<^verbatim>\<open>./router\<close> exports \<^verbatim>\<open>rr\<close>, \<^verbatim>\<open>wrr\<close>, \<^verbatim>\<open>la\<close>, \<^verbatim>\<open>ch\<close>, \<^verbatim>\<open>rd\<close> and \<^verbatim>\<open>df\<close>.\<close>

record router_module =
  rr :: strategy
  wrr :: strategy
  la :: strategy
  ch :: strategy
  rd :: strategy
  df :: route_fn

text \<open>\<^verbatim>\<open>constants.SCHEDULE\<close>.\<close>

record schedule =
  ROUNDROBIN :: string
  WEIGHT_ROUNDROBIN :: string
  LEAST_ACTIVE :: string
  CONSISTENT_HASH :: string

subsection \<open>Construction\<close>

definition empty_opts :: rpc_client_opts where
  "empty_opts = \<lparr> o_context = None, o_routeContext = None, o_router = None,
     o_routerType = None, o_rpcDebugLog = None, clientId = None, o_servers = None,
     o_mailboxFactory = None, rpcLogger = None, o_station = None, hashFieldIndex = None \<rparr>"

text \<open>
  The options object the constructor works on after \<^verbatim>\<open>opts = opts || {}\<close> and
  \<^verbatim>\<open>if (this._context) opts.clientId = this._context.serverId\<close>. It is the caller's own
  object when one was passed, so this is also what the caller sees afterwards.
\<close>

definition constructor_opts :: "rpc_client_opts option \<Rightarrow> rpc_client_opts" where
  "constructor_opts given =
     (let opts0 = (case given of None \<Rightarrow> empty_opts | Some ops \<Rightarrow> ops)
      in case o_context opts0 of
           Some cx \<Rightarrow> opts0 \<lparr> clientId := ctx_serverId cx \<rparr>
         | None \<Rightarrow> opts0)"

text \<open>\<^verbatim>\<open>new RpcClient(opts)\<close>; \<open>R\<close> is the router module, read for \<^verbatim>\<open>router.df\<close>.\<close>

definition RpcClient :: "router_module \<Rightarrow> rpc_client_opts option \<Rightarrow> rpc_client" where
  "RpcClient R given =
     (let opts0 = (case given of None \<Rightarrow> empty_opts | Some ops \<Rightarrow> ops)
      in \<lparr> c_context = o_context opts0,
           c_routeContext = o_routeContext opts0,
           router = (case o_router opts0 of Some r \<Rightarrow> r | None \<Rightarrow> RouterFunction (df R)),
           routerType = o_routerType opts0,
           rpcDebugLog = o_rpcDebugLog opts0,
           opts = constructor_opts given,
           proxies = [],
           state = STATE_INITED \<rparr>)"

definition createClient :: "router_module \<Rightarrow> rpc_client_opts option \<Rightarrow> rpc_client" where
  "createClient R given = RpcClient R given"

subsection \<open>Life cycle\<close>

text \<open>\<^verbatim>\<open>err.stack\<close> begins with the error's name and message; the frames are not modelled.\<close>

fun stack :: "error \<Rightarrow> string" where
  "stack (Error m) = ''Error: '' @ m"

text \<open>
  \<^verbatim>\<open>start(cb)\<close> up to its return: either the callback is called at once with the error, or
  the mail station's \<^verbatim>\<open>start\<close> is called and handed the function below.
\<close>

definition start :: "rpc_client \<Rightarrow> rpc_client \<times> trace" where
  "start c =
     (if state_num (state c) > state_num STATE_INITED
      then (c, emit c (UserCallback (Some (Error ''rpc client has started.''))))
      else (c, emit c (Station Start)))"

text \<open>
  The function \<^verbatim>\<open>start\<close> hands to \<^verbatim>\<open>this._station.start\<close>, run when the mail station
  calls it with \<open>err\<close> on the client as it is at that moment.
\<close>

definition start_callback :: "rpc_client \<Rightarrow> error option \<Rightarrow> rpc_client \<times> trace" where
  "start_callback c err =
     (case err of
        Some e \<Rightarrow>
          (c, emit c (LogError (''[pinus-rpc] client start fail for '' @ stack e) [])
              @ emit c (UserCallback (Some e)))
      | None \<Rightarrow>
          (let c1 = c \<lparr> state := STATE_STARTED \<rparr>
           in (c1, emit c (Station (On ''error'')) @ emit c1 (UserCallback None))))"

definition stop :: "rpc_client \<Rightarrow> bool \<Rightarrow> rpc_client \<times> trace" where
  "stop c force =
     (if state c \<noteq> STATE_STARTED
      then (c, emit c (LogWarn ''[pinus-rpc] client is not running now.''))
      else (let c1 = c \<lparr> state := STATE_CLOSED \<rparr>
            in (c1, emit c1 (Station (Stop force)))))"

subsection \<open>Direct invoke\<close>

text \<open>
  What the mail station passes to the callback of one \<^verbatim>\<open>dispatch\<close>: \<open>Reply t err resp\<close>
  is the call \<^verbatim>\<open>cb(err, resp)\<close> made at time \<open>t\<close>, \<open>NoReply\<close> is a callback that is
  never called. A callback called before the function that received it returns has
  time 0. The mail station is a parameter: it gives the reply to a dispatch.
\<close>

datatype reply = NoReply | Reply nat "error option" jsval

type_synonym station = "string \<Rightarrow> rpc_msg \<Rightarrow> reply"

definition new_Tracer :: "rpc_client \<Rightarrow> string \<Rightarrow> rpc_msg \<Rightarrow> tracer" where
  "new_Tracer c sid msg =
     \<lparr> t_logger = rpcLogger (opts c), t_enable = o_rpcDebugLog (opts c),
       t_source = clientId (opts c), t_remote = sid, t_msg = msg \<rparr>"

definition rpcInvoke :: "station \<Rightarrow> rpc_client \<Rightarrow> string \<Rightarrow> rpc_msg \<Rightarrow> reply \<times> trace" where
  "rpcInvoke S c sid msg =
     (let debug = (rpcDebugLog c = Some True);
          tracer = (if debug then Some (new_Tracer c sid msg) else None);
          entered = (if debug
                     then emit c (TracerInfo ''rpcInvoke'' ''the entrance of rpc invoke'')
                     else [])
      in if state c \<noteq> STATE_STARTED
         then (Reply 0 (Some (Error ''[pinus-rpc] fail to do rpc invoke for client is not running''))
                 JUndefined,
               entered
               @ (if debug
                  then emit c (TracerError ''rpcInvoke''
                         ''fail to do rpc invoke for client is not running'')
                  else [])
               @ emit c (LogError ''[pinus-rpc] fail to do rpc invoke for client is not running'' []))
         else (S sid msg, entered @ emit c (Station (Dispatch tracer sid msg (opts c)))))"

subsection \<open>Routing\<close>

text \<open>
  \<^verbatim>\<open>getRouteTarget\<close>. \<^verbatim>\<open>!!client.routerType\<close> is false for an absent and for an empty
  string. The \<^verbatim>\<open>switch\<close> takes the first case that matches, in the order written.
\<close>

definition getRouteTarget ::
  "router_module \<Rightarrow> schedule \<Rightarrow> rpc_client \<Rightarrow> string \<Rightarrow> rpc_msg \<Rightarrow> jsval \<Rightarrow> route_reply \<times> trace"
where
  "getRouteTarget R K c srvType msg routeParam =
     (if routerType c \<noteq> None \<and> routerType c \<noteq> Some []
      then (let method =
                 (if routerType c = Some (ROUNDROBIN K) then rr R
                  else if routerType c = Some (WEIGHT_ROUNDROBIN K) then wrr R
                  else if routerType c = Some (LEAST_ACTIVE K) then la R
                  else if routerType c = Some (CONSISTENT_HASH K) then ch R
                  else rd R)
            in (method c srvType msg, []))
      else (case router c of
              RouterFunction route \<Rightarrow> (route None routeParam msg (c_routeContext c), [])
            | RouterObject target (Some route) \<Rightarrow>
                (route (Some target) routeParam msg (c_routeContext c), [])
            | RouterObject target None \<Rightarrow>
                (RouteNever, emit c (LogError ''[pinus-rpc] invalid route function.'' []))
            | RouterOther v \<Rightarrow>
                (RouteNever, emit c (LogError ''[pinus-rpc] invalid route function.'' []))))"

subsection \<open>Broadcast join\<close>

text \<open>
  \<^verbatim>\<open>async.each(coll, iteratee, cb)\<close> comes from the \<^verbatim>\<open>async\<close> package, which is not part
  of the sources. The three definitions below stand for it.
\<close>

text \<open>
  Modelled from the spec: the source of \<^verbatim>\<open>async.each\<close> is missing. The spec: "first
  error short-circuits the aggregate failure". This is the earliest error among the
  replies, with its time; of two errors at the same time the one earlier in the list.
\<close>

fun earliest_error :: "reply list \<Rightarrow> (nat \<times> error) option" where
  "earliest_error [] = None"
| "earliest_error (Reply t (Some e) v # rs) =
     (case earliest_error rs of
        Some (t', e') \<Rightarrow> if t' < t then Some (t', e') else Some (t, e)
      | None \<Rightarrow> Some (t, e))"
| "earliest_error (r # rs) = earliest_error rs"

fun reply_time :: "reply \<Rightarrow> nat" where
  "reply_time NoReply = 0"
| "reply_time (Reply t err v) = t"

text \<open>
  Modelled from the spec: the source of \<^verbatim>\<open>async.each\<close> is missing. The spec: "the
  aggregate call only completes (or fails) once all individual invocations have
  completed - first error short-circuits the aggregate failure". So \<^verbatim>\<open>cb(err)\<close> is
  called at the time of the earliest error if there is one; \<^verbatim>\<open>cb(null)\<close> is called when
  the last invocation has completed if none failed (at once for an empty list); and
  \<^verbatim>\<open>cb\<close> is not called while no invocation has failed and one has not completed.
\<close>

definition each_join :: "reply list \<Rightarrow> reply" where
  "each_join rs =
     (case earliest_error rs of
        Some (t, e) \<Rightarrow> Reply t (Some e) JUndefined
      | None \<Rightarrow>
          if NoReply \<in> set rs then NoReply
          else Reply (fold max (map reply_time rs) 0) None JUndefined)"

text \<open>
  Modelled from the spec: the source of \<^verbatim>\<open>async.each\<close> is missing. The spec: "the
  message is dispatched to every server in that list concurrently". The iteratee runs on
  every element, in list order, and the replies it gets are joined as above.
\<close>

definition async_each :: "'a list \<Rightarrow> ('a \<Rightarrow> reply \<times> trace) \<Rightarrow> reply \<times> trace" where
  "async_each coll iteratee =
     (let results = map iteratee coll
      in (each_join (map fst results), concat (map snd results)))"

subsection \<open>Specified-target dispatch\<close>

text \<open>
  The iteratee of the broadcast passes only the error on:
  \<^verbatim>\<open>function (err) { next(err); }\<close>.
\<close>

fun next_err :: "reply \<Rightarrow> reply" where
  "next_err NoReply = NoReply"
| "next_err (Reply t err v) = Reply t err JUndefined"

text \<open>
  \<^verbatim>\<open>rpcToSpecifiedServer\<close> either throws (\<^verbatim>\<open>client._routeContext\<close> is \<^verbatim>\<open>undefined\<close> and
  a property of it is read) or returns, with \<^verbatim>\<open>cb\<close> getting the reply given.
\<close>

datatype specified_result = Thrown error | Cb reply

definition rpcToSpecifiedServer ::
  "station \<Rightarrow> rpc_client \<Rightarrow> rpc_msg \<Rightarrow> string \<Rightarrow> jsval \<Rightarrow> specified_result \<times> trace"
where
  "rpcToSpecifiedServer S c msg srvType serverId =
     (case serverId of
        JString sid \<Rightarrow>
          if sid = ''*''
          then (case c_routeContext c of
                  None \<Rightarrow>
                    (Thrown (Error ''TypeError: Cannot read properties of undefined''), [])
                | Some routeContext \<Rightarrow>
                    (case routeContext srvType of
                       None \<Rightarrow>
                         (Cb NoReply,
                          emit c (LogError ''[pinus-rpc] serverType %s servers not exist''
                                    [JString srvType]))
                     | Some servers \<Rightarrow>
                         (let (r, tr) =
                                async_each servers
                                  (\<lambda>server. let (r, tr) = rpcInvoke S c (srv_id server) msg
                                            in (next_err r, tr))
                          in (Cb r, tr))))
          else (let (r, tr) = rpcInvoke S c sid msg in (Cb r, tr))
      | other \<Rightarrow>
          (Cb NoReply,
           emit c (LogError ''[pinus-rpc] serverId is not a string : %s'' [serverId])))"

subsection \<open>Proxy calls\<close>

text \<open>
  What a proxy call returns to its caller: \<^verbatim>\<open>undefined\<close>, or a promise, given by the
  state it ends in (\<open>Pending\<close> when neither \<^verbatim>\<open>resolve\<close> nor \<^verbatim>\<open>reject\<close> is ever called).
  An exception thrown inside the promise's executor rejects the promise.
\<close>

datatype promise = Pending | Fulfilled jsval | Rejected error

datatype call_result = ReturnsUndefined | ReturnsPromise promise

definition proxyCB ::
  "router_module \<Rightarrow> schedule \<Rightarrow> station \<Rightarrow> rpc_client \<Rightarrow> string \<Rightarrow> string \<Rightarrow> jsval list \<Rightarrow>
   remote_server_code \<Rightarrow> bool \<Rightarrow> call_result \<times> trace"
where
  "proxyCB R K S client serviceName methodName arguments attach isToSpecifiedServer =
     (if state client \<noteq> STATE_STARTED
      then (ReturnsUndefined,
            emit client (Rejection
              (Error ''[pinus-rpc] fail to invoke rpc proxy for client is not running'')))
      else if length arguments < 2
      then (ReturnsUndefined,
            emit client (LogError
              ''[pinus-rpc] invalid rpc invoke, arguments length less than 2, namespace: %j, serverType, %j, serviceName: %j, methodName: %j''
              [JString (rec_namespace attach), JString (rec_serverType attach),
               JString serviceName, JString methodName])
            @ emit client (Rejection
                (Error ''[pinus-rpc] invalid rpc invoke, arguments length less than 2'')))
      else
        (let routeParam = hd arguments;
             srvType = rec_serverType attach;
             msg = \<lparr> namespace = rec_namespace attach, serverType = srvType,
                     service = serviceName, method_name = methodName,
                     args = tl arguments \<rparr>
         in if isToSpecifiedServer
            then (case rpcToSpecifiedServer S client msg srvType routeParam of
                    (Thrown e, tr) \<Rightarrow> (ReturnsPromise (Rejected e), tr)
                  | (Cb NoReply, tr) \<Rightarrow> (ReturnsPromise Pending, tr)
                  | (Cb (Reply t (Some e) v), tr) \<Rightarrow> (ReturnsPromise (Fulfilled (JError e)), tr)
                  | (Cb (Reply t None v), tr) \<Rightarrow> (ReturnsPromise (Fulfilled JNull), tr))
            else (case getRouteTarget R K client srvType msg routeParam of
                    (RouteNever, tr) \<Rightarrow> (ReturnsPromise Pending, tr)
                  | (RouteCb (Some e) sid, tr) \<Rightarrow> (ReturnsPromise (Fulfilled (JError e)), tr)
                  | (RouteCb None sid, tr) \<Rightarrow>
                      (case rpcInvoke S client sid msg of
                         (NoReply, tr2) \<Rightarrow> (ReturnsPromise Pending, tr @ tr2)
                       | (Reply t (Some e) resp, tr2) \<Rightarrow> (ReturnsPromise (Rejected e), tr @ tr2)
                       | (Reply t None resp, tr2) \<Rightarrow>
                           (ReturnsPromise (Fulfilled resp), tr @ tr2)))))"

subsection \<open>The proxy registry\<close>

text \<open>
  Every object written \<^verbatim>\<open>{}\<close> inherits the members of \<^verbatim>\<open>Object.prototype\<close>. A read
  \<^verbatim>\<open>o[k]\<close> gives the own property \<open>k\<close> of \<open>o\<close> if there is one and the inherited member
  otherwise; each of them is truthy (a function, and for \<^verbatim>\<open>__proto__\<close> the prototype
  object itself). A write \<^verbatim>\<open>o[k] = v\<close> makes or changes an own property, except for
  \<^verbatim>\<open>__proto__\<close>, where it replaces the prototype of \<open>o\<close>.
\<close>

definition object_prototype_members :: "string list" where
  "object_prototype_members =
     [''constructor'', ''__defineGetter__'', ''__defineSetter__'', ''hasOwnProperty'',
      ''__lookupGetter__'', ''__lookupSetter__'', ''isPrototypeOf'', ''propertyIsEnumerable'',
      ''toString'', ''valueOf'', ''__proto__'', ''toLocaleString'']"

definition inherited :: "string \<Rightarrow> bool" where
  "inherited k = (k \<in> set object_prototype_members)"

text \<open>
  The result of a step on the registry. \<open>Own x\<close>: every read and write was on own
  properties, and \<open>x\<close> is the result. \<open>Shared k x\<close>: a read found the inherited member
  \<open>k\<close> where the code expects a dictionary entry, or a write under \<^verbatim>\<open>__proto__\<close> replaced
  a prototype; the code then goes on reading and writing objects that are shared by
  all plain objects, which the registry does not hold. \<open>x\<close> is what the own
  dictionary properties hold afterwards.
\<close>

datatype 'a touched = Own 'a | Shared string 'a

fun touched_value :: "'a touched \<Rightarrow> 'a" where
  "touched_value (Own x) = x"
| "touched_value (Shared k x) = x"

text \<open>Running a further step: the first member that was touched is kept.\<close>

fun and_then :: "'a touched \<Rightarrow> ('a \<Rightarrow> 'b touched) \<Rightarrow> 'b touched" where
  "and_then (Own x) f = f x"
| "and_then (Shared k x) f = Shared k (touched_value (f x))"

text \<open>
  \<^verbatim>\<open>Loader.load(record.path, context, false)\<close>: the own enumerable properties of the
  object it returns, the modules by name, or \<open>None\<close> for a falsy result.
\<close>

type_synonym loader =
  "string \<Rightarrow> app_context option \<Rightarrow> (string \<times> loaded_module) list option"

text \<open>
  \<^verbatim>\<open>generateProxy\<close>: \<open>None\<close> when it returns \<^verbatim>\<open>undefined\<close>. \<^verbatim>\<open>res[name] = ...\<close> under the
  name \<^verbatim>\<open>__proto__\<close> replaces the prototype of \<^verbatim>\<open>res\<close> and makes no own property.
\<close>

definition generateProxy ::
  "loader \<Rightarrow> remote_server_code option \<Rightarrow> app_context option \<Rightarrow> proxy_entry touched option"
where
  "generateProxy L record ctx =
     (case record of
        None \<Rightarrow> None
      | Some r \<Rightarrow>
          (case L (rec_path r) ctx of
             None \<Rightarrow> None
           | Some modules \<Rightarrow>
               (let res = fold (\<lambda>(name, origin) res.
                                  if name = ''__proto__'' then res
                                  else AList.update name (Proxy_create name origin r) res)
                               modules []
                in if ''__proto__'' \<in> fst ` set modules
                   then Some (Shared ''__proto__'' res)
                   else Some (Own res))))"

text \<open>
  \<^verbatim>\<open>insertProxy\<close>. \<^verbatim>\<open>proxies[namespace] || {}\<close> and the test
  \<^verbatim>\<open>proxies[namespace][serverType]\<close> also see inherited members: under such a name
  that is not an own property, no entry of the registry is made or changed, and the
  writes go to the inherited object.
\<close>

definition insertProxy ::
  "proxies_t \<Rightarrow> string \<Rightarrow> string \<Rightarrow> proxy_entry \<Rightarrow> proxies_t touched"
where
  "insertProxy P ns srvType proxy =
     (if map_of P ns = None \<and> inherited ns then Shared ns P
      else
        (let byType = (case map_of P ns of Some e \<Rightarrow> e | None \<Rightarrow> [])
         in case map_of byType srvType of
              Some existing \<Rightarrow>
                (let merged = fold (\<lambda>(attr, v) entry.
                                      if attr = ''__proto__'' then entry
                                      else AList.update attr v entry) proxy existing;
                     P' = AList.update ns (AList.update srvType merged byType) P
                 in if ''__proto__'' \<in> fst ` set proxy then Shared ''__proto__'' P'
                    else Own P')
            | None \<Rightarrow>
                if inherited srvType then Shared srvType (AList.update ns byType P)
                else Own (AList.update ns (AList.update srvType proxy byType) P)))"

definition addProxy ::
  "loader \<Rightarrow> rpc_client \<Rightarrow> remote_server_code option \<Rightarrow> rpc_client touched"
where
  "addProxy L c record =
     (case record of
        None \<Rightarrow> Own c
      | Some r \<Rightarrow>
          (case generateProxy L record (c_context c) of
             None \<Rightarrow> Own c
           | Some generated \<Rightarrow>
               and_then generated
                 (\<lambda>proxy. and_then
                    (insertProxy (proxies c) (rec_namespace r) (rec_serverType r) proxy)
                    (\<lambda>P. Own (c \<lparr> proxies := P \<rparr>)))))"

definition addProxies ::
  "loader \<Rightarrow> rpc_client \<Rightarrow> remote_server_code option list option \<Rightarrow> rpc_client touched"
where
  "addProxies L c records =
     (case records of
        None \<Rightarrow> Own c
      | Some rs \<Rightarrow>
          if rs = [] then Own c
          else fold (\<lambda>r acc. and_then acc (\<lambda>c'. addProxy L c' r)) rs (Own c))"



subsection \<open>The client over time\<close>

text \<open>
  The mail station calls the function that \<^verbatim>\<open>start\<close> gave it some time after
  \<^verbatim>\<open>start\<close> has returned, and other methods of the client can be called in between. A
  system is the client, the number of \<^verbatim>\<open>start\<close> callbacks the mail station still holds,
  and the trace so far. An action is a call of a public method, or the mail station
  calling one of the callbacks it holds (\<open>StationStartDone\<close>, possible only when it
  holds one).
\<close>

datatype action =
    CallStart
  | StationStartDone "error option"
  | CallStop bool
  | CallAddProxy "remote_server_code option"
  | CallAddProxies "remote_server_code option list option"
  | CallRpcInvoke string rpc_msg

record system =
  sys_client :: rpc_client
  pending_starts :: nat
  history :: trace

fun step :: "loader \<Rightarrow> station \<Rightarrow> system \<Rightarrow> action \<Rightarrow> system" where
  "step L S s CallStart =
     (let (c, tr) = start (sys_client s)
      in s \<lparr> sys_client := c, pending_starts := pending_starts s + station_starts tr,
             history := history s @ tr \<rparr>)"
| "step L S s (StationStartDone err) =
     (if pending_starts s = 0 then s
      else (let (c, tr) = start_callback (sys_client s) err
            in s \<lparr> sys_client := c, pending_starts := pending_starts s - 1,
                   history := history s @ tr \<rparr>))"
| "step L S s (CallStop force) =
     (let (c, tr) = stop (sys_client s) force
      in s \<lparr> sys_client := c, history := history s @ tr \<rparr>)"
| "step L S s (CallAddProxy record) =
     s \<lparr> sys_client := touched_value (addProxy L (sys_client s) record) \<rparr>"
| "step L S s (CallAddProxies records) =
     s \<lparr> sys_client := touched_value (addProxies L (sys_client s) records) \<rparr>"
| "step L S s (CallRpcInvoke sid msg) =
     s \<lparr> history := history s @ snd (rpcInvoke S (sys_client s) sid msg) \<rparr>"

text \<open>The system right after \<^verbatim>\<open>new RpcClient(opts)\<close>.\<close>

definition new_system :: "router_module \<Rightarrow> rpc_client_opts option \<Rightarrow> system" where
  "new_system R given = \<lparr> sys_client = RpcClient R given, pending_starts = 0, history = [] \<rparr>"

text \<open>The client states a system goes through under a list of actions.\<close>

fun states_along :: "loader \<Rightarrow> station \<Rightarrow> system \<Rightarrow> action list \<Rightarrow> client_state list" where
  "states_along L S s [] = [state (sys_client s)]"
| "states_along L S s (a # as) = state (sys_client s) # states_along L S (step L S s a) as"

subsection \<open>Predicates of the statements\<close>

text \<open>\<^verbatim>\<open>typeof client.router === 'function'\<close>.\<close>

fun is_function :: "router_shape \<Rightarrow> bool" where
  "is_function (RouterFunction f) = True"
| "is_function r = False"

text \<open>\<^verbatim>\<open>typeof client.router.route === 'function'\<close>.\<close>

fun has_route_method :: "router_shape \<Rightarrow> bool" where
  "has_route_method (RouterObject i (Some f)) = True"
| "has_route_method r = False"

text \<open>\<^verbatim>\<open>typeof serverId === 'string'\<close>.\<close>

fun is_string :: "jsval \<Rightarrow> bool" where
  "is_string (JString s) = True"
| "is_string v = False"

text \<open>
  The state of the promise of a specified-target call whose \<^verbatim>\<open>resolve\<close> is the callback
  \<^verbatim>\<open>cb\<close>: \<^verbatim>\<open>resolve\<close> takes the first argument of \<^verbatim>\<open>cb(err, resp)\<close>.
\<close>

fun settled :: "reply \<Rightarrow> promise" where
  "settled NoReply = Pending"
| "settled (Reply t (Some e) v) = Fulfilled (JError e)"
| "settled (Reply t None v) = Fulfilled JNull"

subsection \<open>Example values\<close>

definition R0 :: router_module where
  "R0 = \<lparr> rr = (\<lambda>c t m. RouteCb None ''rr-server''),
          wrr = (\<lambda>c t m. RouteCb None ''wrr-server''),
          la = (\<lambda>c t m. RouteCb None ''la-server''),
          ch = (\<lambda>c t m. RouteCb None ''ch-server''),
          rd = (\<lambda>c t m. RouteCb None ''rd-server''),
          df = (\<lambda>tg p m rc. RouteCb None ''df-server'') \<rparr>"

definition K0 :: schedule where
  "K0 = \<lparr> ROUNDROBIN = ''rr'', WEIGHT_ROUNDROBIN = ''wrr'', LEAST_ACTIVE = ''la'',
          CONSISTENT_HASH = ''ch'' \<rparr>"

text \<open>A route context that knows three chat servers, no gate server and no area type.\<close>

definition rc0 :: route_context where
  "rc0 = (\<lambda>t. if t = ''chat''
               then Some [\<lparr> srv_id = ''chat-1'', srv_serverType = ''chat'' \<rparr>,
                          \<lparr> srv_id = ''chat-2'', srv_serverType = ''chat'' \<rparr>,
                          \<lparr> srv_id = ''chat-3'', srv_serverType = ''chat'' \<rparr>]
               else if t = ''gate'' then Some []
               else None)"

definition client0 :: rpc_client where
  "client0 = RpcClient R0 (Some (empty_opts \<lparr> o_routeContext := Some rc0 \<rparr>))"

definition started0 :: rpc_client where
  "started0 = fst (start_callback client0 None)"

definition opts0 :: rpc_client_opts where
  "opts0 = empty_opts \<lparr> o_context := Some \<lparr> ctx_serverId = Some ''connector-1'' \<rparr>,
                        clientId := Some ''given-id'' \<rparr>"

definition attach0 :: remote_server_code where
  "attach0 = \<lparr> rec_namespace = ''user'', rec_serverType = ''chat'',
               rec_path = ''/app/servers/chat/remote'' \<rparr>"

definition attach1 :: remote_server_code where
  "attach1 = \<lparr> rec_namespace = ''user'', rec_serverType = ''area'',
               rec_path = ''/app/servers/area/remote'' \<rparr>"


text \<open>A mail station on which every dispatch succeeds at time 5.\<close>

definition S0 :: station where
  "S0 = (\<lambda>sid msg. Reply 5 None (JString ''ok''))"

text \<open>A mail station on which \<^verbatim>\<open>chat-2\<close> fails at time 1 and the others succeed at time 5.\<close>

definition S1 :: station where
  "S1 = (\<lambda>sid msg. if sid = ''chat-2'' then Reply 1 (Some (Error ''chat-2 is down'')) JUndefined
                     else Reply 5 None (JString ''ok''))"

text \<open>
  A loader: the chat remote directory holds \<^verbatim>\<open>chatRemote\<close> with two methods, a second
  directory holds \<^verbatim>\<open>roomRemote\<close>, and a third holds another \<^verbatim>\<open>chatRemote\<close> that has
  only one of the two methods.
\<close>

definition L0 :: loader where
  "L0 = (\<lambda>path ctx.
           if path = ''/app/servers/chat/remote''
           then Some [(''chatRemote'', \<lparr> m_handle = 1, m_methods = [''send'', ''kick''] \<rparr>)]
           else if path = ''/app/servers/chat/extra''
           then Some [(''roomRemote'', \<lparr> m_handle = 2, m_methods = [''join''] \<rparr>)]
           else if path = ''/app/servers/chat/patch''
           then Some [(''chatRemote'', \<lparr> m_handle = 3, m_methods = [''send''] \<rparr>)]
           else None)"


text \<open>The server type of the empty list of \<open>rc0\<close>.\<close>

definition attach4 :: remote_server_code where
  "attach4 = \<lparr> rec_namespace = ''user'', rec_serverType = ''gate'',
               rec_path = ''/app/servers/gate/remote'' \<rparr>"

text \<open>The message of the call \<^verbatim>\<open>chatRemote.send(key, 'hi')\<close> on a chat server.\<close>

definition msg0 :: rpc_msg where
  "msg0 = \<lparr> namespace = ''user'', serverType = ''chat'', service = ''chatRemote'',
            method_name = ''send'', args = [JString ''hi''] \<rparr>"

section \<open>Properties\<close>

subsection \<open>The example values\<close>

lemma client0_state: "state client0 = STATE_INITED"
  by (simp add: client0_def RpcClient_def)

lemma started0_fields:
  "state started0 = STATE_STARTED"
  "routerType started0 = None"
  "c_routeContext started0 = Some rc0"
  "rpcDebugLog started0 = None"
  "router started0 = RouterFunction (df R0)"
  "c_context started0 = None"
  by (simp_all add: started0_def start_callback_def client0_def RpcClient_def Let_def empty_opts_def)

subsection \<open>Life cycle\<close>

text \<open>
  Claim C6. On a client whose state is \<open>STATE_STARTED\<close> or \<open>STATE_CLOSED\<close>, \<^verbatim>\<open>start\<close>
  calls the callback with the error \<^verbatim>\<open>rpc client has started.\<close>, leaves the client as
  it is and does not call the mail station's \<^verbatim>\<open>start\<close>. On a client in \<open>STATE_INITED\<close>,
  \<^verbatim>\<open>start\<close> calls the mail station's \<^verbatim>\<open>start\<close>, and when the mail station then reports
  an error, the client is unchanged, so its state is still \<open>STATE_INITED\<close>, and the
  callback is called with that error.
\<close>

theorem start_guard:
  assumes "state c = STATE_STARTED \<or> state c = STATE_CLOSED"
    and "state c' = STATE_INITED"
  shows "start c = (c, [(state c, UserCallback (Some (Error ''rpc client has started.'')))])
       \<and> station_starts (snd (start c)) = 0
       \<and> start c' = (c', [(STATE_INITED, Station Start)])
       \<and> start_callback c' (Some e) =
           (c', [(STATE_INITED, LogError (''[pinus-rpc] client start fail for '' @ stack e) []),
                 (STATE_INITED, UserCallback (Some e))])
       \<and> state (fst (start_callback c' (Some e))) = STATE_INITED"
  using assms by (auto simp: start_def start_callback_def emit_def)

theorem start_guard_witness:
  "(state started0 = STATE_STARTED \<or> state started0 = STATE_CLOSED)
   \<and> state client0 = STATE_INITED
   \<and> start started0 = (started0, [(STATE_STARTED, UserCallback (Some (Error ''rpc client has started.'')))])
   \<and> station_starts (snd (start started0)) = 0
   \<and> state (fst (start_callback client0 (Some (Error ''connect refused'')))) = STATE_INITED"
proof -
  have h1: "state started0 = STATE_STARTED \<or> state started0 = STATE_CLOSED" by (simp add: started0_fields)
  have h2: "state client0 = STATE_INITED" by (simp add: client0_state)
  show ?thesis using h1 h2 start_guard [OF h1 h2, of "Error ''connect refused''"] by (simp add: started0_fields)
qed

text \<open>
  Claim C7. On a client that is not in \<open>STATE_STARTED\<close>, \<^verbatim>\<open>stop\<close> logs a warning and
  does nothing else: the client is unchanged and the mail station's \<^verbatim>\<open>stop\<close> is not
  called. On a client in \<open>STATE_STARTED\<close>, the mail station's \<^verbatim>\<open>stop\<close> is called with
  the same \<open>force\<close> flag, and the client is already in \<open>STATE_CLOSED\<close> at that call.
\<close>

theorem stop_behaviour:
  assumes "state c \<noteq> STATE_STARTED" and "state c' = STATE_STARTED"
  shows "stop c force = (c, [(state c, LogWarn ''[pinus-rpc] client is not running now.'')])
       \<and> state (fst (stop c force)) = state c
       \<and> station_stops (snd (stop c force)) = 0
       \<and> stop c' force = (c' \<lparr> state := STATE_CLOSED \<rparr>, [(STATE_CLOSED, Station (Stop force))])"
  using assms by (auto simp: stop_def emit_def)

theorem stop_behaviour_witness:
  "state client0 \<noteq> STATE_STARTED \<and> state started0 = STATE_STARTED
   \<and> stop client0 True = (client0, [(STATE_INITED, LogWarn ''[pinus-rpc] client is not running now.'')])
   \<and> stop started0 True = (started0 \<lparr> state := STATE_CLOSED \<rparr>, [(STATE_CLOSED, Station (Stop True))])"
proof -
  have h1: "state client0 \<noteq> STATE_STARTED" by (simp add: client0_state)
  have h2: "state started0 = STATE_STARTED" by (simp add: started0_fields)
  show ?thesis using h1 h2 stop_behaviour [OF h1 h2, of True] by (simp add: client0_state)
qed

lemma insertProxy_client_state:
  "state (touched_value (and_then (insertProxy P ns st proxy) (\<lambda>P'. Own (c \<lparr> proxies := P' \<rparr>))))
     = state c"
  by (cases "insertProxy P ns st proxy") simp_all

lemma addProxy_state: "state (touched_value (addProxy L c record)) = state c"
proof (cases "record")
  case None
  then show ?thesis by (simp add: addProxy_def)
next
  case (Some r)
  show ?thesis
  proof (cases "generateProxy L record (c_context c)")
    case None
    then show ?thesis using Some by (simp add: addProxy_def)
  next
    case (Some generated)
    then show ?thesis using \<open>record = Some r\<close>
      by (cases generated) (simp_all add: addProxy_def insertProxy_client_state)
  qed
qed

lemma addProxies_state: "state (touched_value (addProxies L c records)) = state c"
proof -
  have "state (touched_value (fold (\<lambda>r acc. and_then acc (\<lambda>c'. addProxy L c' r)) rs acc))
      = state (touched_value acc)" for rs acc
  proof (induction rs arbitrary: acc)
    case Nil
    show ?case by simp
  next
    case (Cons r rs)
    have "state (touched_value (and_then acc (\<lambda>c'. addProxy L c' r))) = state (touched_value acc)"
      by (cases acc) (simp_all add: addProxy_state)
    then show ?case using Cons.IH by simp
  qed
  then show ?thesis by (simp add: addProxies_def split: option.splits)
qed

lemma step_leaves_inited_behind:
  "state (sys_client s) \<noteq> STATE_INITED \<Longrightarrow> state (sys_client (step L S s a)) \<noteq> STATE_INITED"
  by (cases a)
     (auto simp: start_def start_callback_def stop_def addProxy_state addProxies_state Let_def
           split: option.splits)

lemma call_never_lowers_state:
  "a \<noteq> StationStartDone None \<Longrightarrow>
   state_num (state (sys_client s)) \<le> state_num (state (sys_client (step L S s a)))"
  by (cases a; cases "state (sys_client s)")
     (auto simp: start_def start_callback_def stop_def addProxy_state addProxies_state Let_def
           split: option.splits)

text \<open>
  Claim C8, evaluated where the code departs from it. \<^verbatim>\<open>start\<close> is called twice on a
  new client before the mail station has answered; the first answer starts the client,
  \<^verbatim>\<open>stop\<close> closes it, and the second answer sets the state back to \<open>STATE_STARTED\<close>.
\<close>

theorem late_start_callback_reopens:
  "states_along L0 S0 (new_system R0 None)
     [CallStart, CallStart, StationStartDone None, CallStop False, StationStartDone None]
   = [STATE_INITED, STATE_INITED, STATE_INITED, STATE_STARTED, STATE_CLOSED, STATE_STARTED]"
  by (simp add: new_system_def RpcClient_def start_def start_callback_def stop_def emit_def Let_def)

subsection \<open>Construction\<close>

text \<open>
  Claim C10. When the options object holds a context, the client's \<^verbatim>\<open>clientId\<close> (that
  of \<^verbatim>\<open>client.opts\<close>) is \<^verbatim>\<open>context.serverId\<close>, whatever \<^verbatim>\<open>clientId\<close> the options had,
  and the options object the caller passed is itself changed to hold that value.
\<close>

theorem constructor_clientId:
  assumes "o_context ops = Some cx"
  shows "clientId (opts (RpcClient R (Some ops))) = ctx_serverId cx
       \<and> constructor_opts (Some ops) = ops \<lparr> clientId := ctx_serverId cx \<rparr>
       \<and> opts (RpcClient R (Some ops)) = constructor_opts (Some ops)"
  using assms by (simp add: RpcClient_def constructor_opts_def)

theorem constructor_clientId_witness:
  "o_context opts0 = Some \<lparr> ctx_serverId = Some ''connector-1'' \<rparr>
   \<and> clientId opts0 = Some ''given-id''
   \<and> clientId (opts (RpcClient R0 (Some opts0))) = Some ''connector-1''
   \<and> clientId (constructor_opts (Some opts0)) = Some ''connector-1''"
proof -
  have h: "o_context opts0 = Some \<lparr> ctx_serverId = Some ''connector-1'' \<rparr>"
    by (simp add: opts0_def empty_opts_def)
  have g: "clientId opts0 = Some ''given-id''" by (simp add: opts0_def empty_opts_def)
  show ?thesis using h g constructor_clientId [OF h, of R0] by simp
qed

subsection \<open>Strategy routing\<close>

text \<open>
  Claim C5. With a \<^verbatim>\<open>routerType\<close> (a non-empty string, so that \<^verbatim>\<open>!!client.routerType\<close>
  holds), \<^verbatim>\<open>getRouteTarget\<close> returns what the built-in strategy returns when called
  with the client, the server type and the message: \<^verbatim>\<open>rr\<close>, \<^verbatim>\<open>wrr\<close>, \<^verbatim>\<open>la\<close> or
  \<^verbatim>\<open>ch\<close> for the matching \<^verbatim>\<open>SCHEDULE\<close> constant, and \<^verbatim>\<open>rd\<close> for any other value. The
  route parameter and the custom router play no part, and nothing is logged. The four
  constants are parameters, taken to be distinct and non-empty.
\<close>

theorem routerType_selects_strategy:
  assumes "distinct [ROUNDROBIN K, WEIGHT_ROUNDROBIN K, LEAST_ACTIVE K, CONSISTENT_HASH K]"
    and "[] \<notin> set [ROUNDROBIN K, WEIGHT_ROUNDROBIN K, LEAST_ACTIVE K, CONSISTENT_HASH K]"
    and "rt \<notin> set [ROUNDROBIN K, WEIGHT_ROUNDROBIN K, LEAST_ACTIVE K, CONSISTENT_HASH K]"
    and "rt \<noteq> []"
  shows "getRouteTarget R K (c \<lparr> routerType := Some (ROUNDROBIN K) \<rparr>) srvType msg routeParam
           = (rr R (c \<lparr> routerType := Some (ROUNDROBIN K) \<rparr>) srvType msg, [])
       \<and> getRouteTarget R K (c \<lparr> routerType := Some (WEIGHT_ROUNDROBIN K) \<rparr>) srvType msg routeParam
           = (wrr R (c \<lparr> routerType := Some (WEIGHT_ROUNDROBIN K) \<rparr>) srvType msg, [])
       \<and> getRouteTarget R K (c \<lparr> routerType := Some (LEAST_ACTIVE K) \<rparr>) srvType msg routeParam
           = (la R (c \<lparr> routerType := Some (LEAST_ACTIVE K) \<rparr>) srvType msg, [])
       \<and> getRouteTarget R K (c \<lparr> routerType := Some (CONSISTENT_HASH K) \<rparr>) srvType msg routeParam
           = (ch R (c \<lparr> routerType := Some (CONSISTENT_HASH K) \<rparr>) srvType msg, [])
       \<and> getRouteTarget R K (c \<lparr> routerType := Some rt \<rparr>) srvType msg routeParam
           = (rd R (c \<lparr> routerType := Some rt \<rparr>) srvType msg, [])"
  using assms by (auto simp: getRouteTarget_def)

theorem routerType_selects_strategy_witness:
  "distinct [ROUNDROBIN K0, WEIGHT_ROUNDROBIN K0, LEAST_ACTIVE K0, CONSISTENT_HASH K0]
   \<and> ''random'' \<notin> set [ROUNDROBIN K0, WEIGHT_ROUNDROBIN K0, LEAST_ACTIVE K0, CONSISTENT_HASH K0]
   \<and> getRouteTarget R0 K0 (started0 \<lparr> routerType := Some ''rr'' \<rparr>) ''chat'' msg0 JNull
        = (RouteCb None ''rr-server'', [])
   \<and> getRouteTarget R0 K0 (started0 \<lparr> routerType := Some ''wrr'' \<rparr>) ''chat'' msg0 JNull
        = (RouteCb None ''wrr-server'', [])
   \<and> getRouteTarget R0 K0 (started0 \<lparr> routerType := Some ''la'' \<rparr>) ''chat'' msg0 JNull
        = (RouteCb None ''la-server'', [])
   \<and> getRouteTarget R0 K0 (started0 \<lparr> routerType := Some ''ch'' \<rparr>) ''chat'' msg0 JNull
        = (RouteCb None ''ch-server'', [])
   \<and> getRouteTarget R0 K0 (started0 \<lparr> routerType := Some ''random'' \<rparr>) ''chat'' msg0 JNull
        = (RouteCb None ''rd-server'', [])"
proof -
  have h1: "distinct [ROUNDROBIN K0, WEIGHT_ROUNDROBIN K0, LEAST_ACTIVE K0, CONSISTENT_HASH K0]"
    by (simp add: K0_def)
  have h2: "[] \<notin> set [ROUNDROBIN K0, WEIGHT_ROUNDROBIN K0, LEAST_ACTIVE K0, CONSISTENT_HASH K0]"
    by (simp add: K0_def)
  have h3: "''random'' \<notin> set [ROUNDROBIN K0, WEIGHT_ROUNDROBIN K0, LEAST_ACTIVE K0, CONSISTENT_HASH K0]"
    by (simp add: K0_def)
  have h4: "''random'' \<noteq> []" by simp
  show ?thesis
    using h1 h3 routerType_selects_strategy [OF h1 h2 h3 h4, of R0 started0 "''chat''" msg0 JNull]
    by (simp add: K0_def R0_def)
qed

text \<open>
  Claim C4. A strategy-routed proxy call on a started client with no \<^verbatim>\<open>routerType\<close>,
  whose router is neither a function nor an object with a \<^verbatim>\<open>route\<close> function, logs
  \<^verbatim>\<open>invalid route function.\<close> and returns a promise that is never settled; nothing is
  dispatched to the mail station.
\<close>

theorem invalid_router_never_resolves:
  assumes "state c = STATE_STARTED"
    and "2 \<le> length arguments"
    and "routerType c = None \<or> routerType c = Some []"
    and "\<not> is_function (router c)" and "\<not> has_route_method (router c)"
  shows "proxyCB R K S c serviceName methodName arguments attach False
           = (ReturnsPromise Pending,
              [(STATE_STARTED, LogError ''[pinus-rpc] invalid route function.'' [])])
       \<and> dispatches (snd (proxyCB R K S c serviceName methodName arguments attach False)) = []"
proof -
  have g: "getRouteTarget R K c st msg rp
         = (RouteNever, [(STATE_STARTED, LogError ''[pinus-rpc] invalid route function.'' [])])"
    for st msg rp
    using assms(1,3,4,5)
    by (cases "router c" rule: has_route_method.cases) (auto simp: getRouteTarget_def emit_def)
  show ?thesis using assms(1,2) by (simp add: proxyCB_def g Let_def)
qed

theorem invalid_router_never_resolves_witness:
  "state (started0 \<lparr> router := RouterOther (JNumber 5) \<rparr>) = STATE_STARTED
   \<and> proxyCB R0 K0 S0 (started0 \<lparr> router := RouterOther (JNumber 5) \<rparr>) ''chatRemote'' ''add''
        [JString ''uid-1'', JString ''hello''] attach0 False
      = (ReturnsPromise Pending, [(STATE_STARTED, LogError ''[pinus-rpc] invalid route function.'' [])])"
proof -
  let ?c = "started0 \<lparr> router := RouterOther (JNumber 5) \<rparr>"
  have h1: "state ?c = STATE_STARTED" by (simp add: started0_fields)
  have h2: "2 \<le> length [JString ''uid-1'', JString ''hello'']" by simp
  have h3: "routerType ?c = None \<or> routerType ?c = Some []"
    by (simp add: started0_def start_callback_def client0_def RpcClient_def Let_def empty_opts_def)
  have h4: "\<not> is_function (router ?c)" by simp
  have h5: "\<not> has_route_method (router ?c)" by simp
  show ?thesis
    using h1 invalid_router_never_resolves [OF h1 h2 h3 h4 h5, of R0 K0 S0 "''chatRemote''" "''add''" attach0]
    by simp
qed

subsection \<open>Preconditions of a proxy call\<close>

lemma proxyCB_precondition_no_dispatch:
  "state c \<noteq> STATE_STARTED \<or> length arguments < 2 \<Longrightarrow>
   fst (proxyCB R K S c serviceName methodName arguments attach flag) = ReturnsUndefined
   \<and> dispatches (snd (proxyCB R K S c serviceName methodName arguments attach flag)) = []"
  by (auto simp: proxyCB_def emit_def)

text \<open>
  Claim C1, evaluated where the code departs from it. On a client that has not been
  started, and on a started client with fewer than two arguments, \<^verbatim>\<open>proxyCB\<close> makes a
  rejected promise with the error, drops it and returns \<^verbatim>\<open>undefined\<close>: the caller gets
  no promise, so the failure does not reach it.
\<close>

theorem proxyCB_precondition_rejection_dropped:
  "proxyCB R0 K0 S0 client0 ''chatRemote'' ''send'' [JString ''uid-1'', JString ''hi''] attach0 False
     = (ReturnsUndefined,
        [(STATE_INITED, Rejection
            (Error ''[pinus-rpc] fail to invoke rpc proxy for client is not running''))])
   \<and> proxyCB R0 K0 S0 started0 ''chatRemote'' ''send'' [JString ''hi''] attach0 False
     = (ReturnsUndefined,
        [(STATE_STARTED, LogError
            ''[pinus-rpc] invalid rpc invoke, arguments length less than 2, namespace: %j, serverType, %j, serviceName: %j, methodName: %j''
            [JString ''user'', JString ''chat'', JString ''chatRemote'', JString ''send'']),
         (STATE_STARTED, Rejection
            (Error ''[pinus-rpc] invalid rpc invoke, arguments length less than 2''))])"
  by (simp add: proxyCB_def client0_state started0_fields emit_def attach0_def)

subsection \<open>Specified-target dispatch\<close>

lemma dispatches_append: "dispatches (xs @ ys) = dispatches xs @ dispatches ys"
  by (induction xs rule: dispatches.induct) simp_all

lemma rpcInvoke_started:
  "state c = STATE_STARTED \<Longrightarrow> fst (rpcInvoke S c sid msg) = S sid msg
     \<and> dispatches (snd (rpcInvoke S c sid msg)) = [(sid, msg)]"
  by (simp add: rpcInvoke_def Let_def emit_def dispatches_append)

lemma proxyCB_specified:
  "state c = STATE_STARTED \<Longrightarrow> 2 \<le> length arguments \<Longrightarrow>
   proxyCB R K S c serviceName methodName arguments attach True =
     (case rpcToSpecifiedServer S c
             \<lparr> namespace = rec_namespace attach, serverType = rec_serverType attach,
               service = serviceName, method_name = methodName, args = tl arguments \<rparr>
             (rec_serverType attach) (hd arguments) of
        (Thrown e, tr) \<Rightarrow> (ReturnsPromise (Rejected e), tr)
      | (Cb r, tr) \<Rightarrow> (ReturnsPromise (settled r), tr))"
  by (auto simp: proxyCB_def Let_def split: prod.splits specified_result.splits reply.splits option.splits)

text \<open>
  Claim C3, as amended. In a specified-target call on a started client, a routing key
  that is not a string is logged and the promise of the call is left pending: no
  failure is delivered and nothing is dispatched. A string key other than \<^verbatim>\<open>*\<close> makes
  exactly one \<^verbatim>\<open>rpcInvoke\<close> to that id, hence one dispatch to the mail station, and the
  promise is settled by the reply to it.
\<close>

theorem specified_target_key:
  assumes "state c = STATE_STARTED"
    and "arguments = key # a # rest"
    and "msg = \<lparr> namespace = rec_namespace attach, serverType = rec_serverType attach,
                  service = serviceName, method_name = methodName, args = a # rest \<rparr>"
  shows "(\<not> is_string key \<longrightarrow>
            proxyCB R K S c serviceName methodName arguments attach True
              = (ReturnsPromise Pending,
                 [(STATE_STARTED, LogError ''[pinus-rpc] serverId is not a string : %s'' [key])]))
       \<and> (\<forall>sid. key = JString sid \<and> sid \<noteq> ''*'' \<longrightarrow>
            rpcToSpecifiedServer S c msg (rec_serverType attach) key
              = (Cb (fst (rpcInvoke S c sid msg)), snd (rpcInvoke S c sid msg))
          \<and> dispatches (snd (proxyCB R K S c serviceName methodName arguments attach True))
              = [(sid, msg)]
          \<and> fst (proxyCB R K S c serviceName methodName arguments attach True)
              = ReturnsPromise (settled (S sid msg)))"
proof -
  have len: "2 \<le> length arguments" using assms(2) by simp
  have a: "\<not> is_string key \<Longrightarrow> rpcToSpecifiedServer S c m st key
      = (Cb NoReply, [(STATE_STARTED, LogError ''[pinus-rpc] serverId is not a string : %s'' [key])])"
    for m st
    using assms(1) by (cases key) (simp_all add: rpcToSpecifiedServer_def emit_def)
  have b: "sid \<noteq> ''*'' \<Longrightarrow> rpcToSpecifiedServer S c m st (JString sid)
      = (Cb (fst (rpcInvoke S c sid m)), snd (rpcInvoke S c sid m))" for m st sid
    by (simp add: rpcToSpecifiedServer_def split: prod.splits)
  have p: "proxyCB R K S c serviceName methodName arguments attach True =
      (case rpcToSpecifiedServer S c msg (rec_serverType attach) key of
         (Thrown e, tr) \<Rightarrow> (ReturnsPromise (Rejected e), tr)
       | (Cb r, tr) \<Rightarrow> (ReturnsPromise (settled r), tr))"
    using proxyCB_specified [OF assms(1) len, of R K S serviceName methodName attach] assms(2,3)
    by simp
  show ?thesis
    unfolding p using rpcInvoke_started [OF assms(1)]
    by (auto simp: a b)
qed

theorem specified_target_key_witness:
  "state started0 = STATE_STARTED
   \<and> \<not> is_string (JNumber 7)
   \<and> proxyCB R0 K0 S1 started0 ''chatRemote'' ''send'' [JNumber 7, JString ''hi''] attach0 True
       = (ReturnsPromise Pending,
          [(STATE_STARTED, LogError ''[pinus-rpc] serverId is not a string : %s'' [JNumber 7])])
   \<and> dispatches (snd (proxyCB R0 K0 S1 started0 ''chatRemote'' ''send''
                         [JString ''chat-2'', JString ''hi''] attach0 True))
       = [(''chat-2'', msg0)]
   \<and> fst (proxyCB R0 K0 S1 started0 ''chatRemote'' ''send''
             [JString ''chat-2'', JString ''hi''] attach0 True)
       = ReturnsPromise (Fulfilled (JError (Error ''chat-2 is down'')))"
proof -
  have h1: "state started0 = STATE_STARTED" by (simp add: started0_fields)
  have m: "msg0 = \<lparr> namespace = rec_namespace attach0, serverType = rec_serverType attach0,
                     service = ''chatRemote'', method_name = ''send'', args = JString ''hi'' # [] \<rparr>"
    by (simp add: msg0_def attach0_def)
  have a: "[JNumber 7, JString ''hi''] = JNumber 7 # JString ''hi'' # []" by simp
  have b: "[JString ''chat-2'', JString ''hi''] = JString ''chat-2'' # JString ''hi'' # []" by simp
  show ?thesis
    using h1 specified_target_key [OF h1 a m, of R0 K0 S1]
      specified_target_key [OF h1 b m, of R0 K0 S1]
    by (simp add: S1_def)
qed

text \<open>
  Against claim C3 as stated: with the number 7 as routing key the promise is pending,
  so no failure is delivered to the caller.
\<close>

theorem non_string_key_left_pending:
  "proxyCB R0 K0 S0 started0 ''chatRemote'' ''send'' [JNumber 7, JString ''hi''] attach0 True
     = (ReturnsPromise Pending,
        [(STATE_STARTED, LogError ''[pinus-rpc] serverId is not a string : %s'' [JNumber 7])])"
  by (simp add: proxyCB_def rpcToSpecifiedServer_def started0_fields emit_def Let_def)

subsection \<open>Broadcast\<close>

lemma earliest_error_None:
  "earliest_error rs = None \<longleftrightarrow> (\<forall>t e v. Reply t (Some e) v \<notin> set rs)"
  by (induction rs rule: earliest_error.induct) (auto split: option.splits)

lemma earliest_error_Some:
  "earliest_error rs = Some (t, e) \<Longrightarrow>
     (\<exists>v. Reply t (Some e) v \<in> set rs)
     \<and> (\<forall>t' e' v'. Reply t' (Some e') v' \<in> set rs \<longrightarrow> t \<le> t')"
proof (induction rs arbitrary: t e rule: earliest_error.induct)
  case 1
  then show ?case by simp
next
  case (2 t0 e0 v0 rs)
  show ?case
  proof (cases "earliest_error rs")
    case None
    then have noerr: "\<forall>t e v. Reply t (Some e) v \<notin> set rs"
      by (simp add: earliest_error_None)
    have "t = t0" "e = e0" using "2.prems" None by simp_all
    then show ?thesis using noerr by auto
  next
    case (Some p)
    obtain t1 e1 where p: "p = (t1, e1)" by (cases p)
    from "2.IH" [of t1 e1] Some p
    have ih: "(\<exists>v. Reply t1 (Some e1) v \<in> set rs)
       \<and> (\<forall>t' e' v'. Reply t' (Some e') v' \<in> set rs \<longrightarrow> t1 \<le> t')" by simp
    show ?thesis
    proof (cases "t1 < t0")
      case True
      then have "t = t1" "e = e1" using "2.prems" Some p by simp_all
      then show ?thesis using ih True by auto
    next
      case False
      then have "t = t0" "e = e0" using "2.prems" Some p by simp_all
      then show ?thesis using ih False by fastforce
    qed
  qed
qed auto

lemma fold_max_ge: "(a::nat) \<le> fold max xs a \<and> (\<forall>x\<in>set xs. x \<le> fold max xs a)"
proof (induction xs arbitrary: a)
  case Nil
  show ?case by simp
next
  case (Cons x xs)
  have "max x a \<le> fold max xs (max x a)" and "\<forall>y\<in>set xs. y \<le> fold max xs (max x a)"
    using Cons.IH [of "max x a"] by simp_all
  then show ?case by auto
qed

lemma each_join_ok:
  "each_join rs = Reply t None v \<longleftrightarrow>
     (\<forall>r\<in>set rs. \<exists>t' v'. r = Reply t' None v')
     \<and> t = fold max (map reply_time rs) 0 \<and> v = JUndefined"
proof -
  have a: "(\<forall>r\<in>set rs. \<exists>t' v'. r = Reply t' None v')
      \<longleftrightarrow> earliest_error rs = None \<and> NoReply \<notin> set rs"
  proof
    assume h: "\<forall>r\<in>set rs. \<exists>t' v'. r = Reply t' None v'"
    then show "earliest_error rs = None \<and> NoReply \<notin> set rs"
      unfolding earliest_error_None by fastforce
  next
    assume h: "earliest_error rs = None \<and> NoReply \<notin> set rs"
    show "\<forall>r\<in>set rs. \<exists>t' v'. r = Reply t' None v'"
    proof
      fix r assume r: "r \<in> set rs"
      show "\<exists>t' v'. r = Reply t' None v'"
      proof (cases r)
        case NoReply
        then show ?thesis using h r by simp
      next
        case (Reply t' err v')
        then show ?thesis using h r unfolding earliest_error_None by (cases err) auto
      qed
    qed
  qed
  show ?thesis unfolding a by (auto simp: each_join_def split: option.splits)
qed

lemma each_join_err:
  "each_join rs = Reply t (Some e) v \<longleftrightarrow> earliest_error rs = Some (t, e) \<and> v = JUndefined"
  by (auto simp: each_join_def split: option.splits)

lemma settled_join_err:
  "(\<exists>e. settled (each_join rs) = Fulfilled (JError e))
     \<longleftrightarrow> (\<exists>t e. earliest_error rs = Some (t, e))"
  by (auto simp: each_join_def split: option.splits)

lemma next_err_simps:
  "next_err r = Reply t err v \<longleftrightarrow> (\<exists>v'. r = Reply t err v') \<and> v = JUndefined"
  "Reply t err v = next_err r \<longleftrightarrow> (\<exists>v'. r = Reply t err v') \<and> v = JUndefined"
  "reply_time (next_err r) = reply_time r"
  by (cases r; auto)+

lemma star_result:
  assumes "state c = STATE_STARTED" and "c_routeContext c = Some routeContext"
    and "routeContext st = Some servers"
  shows "rpcToSpecifiedServer S c msg st (JString ''*'')
       = (Cb (each_join (map (\<lambda>s. next_err (S (srv_id s) msg)) servers)),
          concat (map (\<lambda>s. snd (rpcInvoke S c (srv_id s) msg)) servers))"
proof -
  have it: "(\<lambda>server. let (r, tr) = rpcInvoke S c (srv_id server) msg in (next_err r, tr))
      = (\<lambda>s. (next_err (S (srv_id s) msg), snd (rpcInvoke S c (srv_id s) msg)))"
    using rpcInvoke_started [OF assms(1), of S] by (simp add: split_beta fun_eq_iff)
  show ?thesis
    unfolding rpcToSpecifiedServer_def async_each_def it
    using assms(2,3) by (simp add: comp_def)
qed

lemma dispatches_concat:
  "state c = STATE_STARTED \<Longrightarrow>
   dispatches (concat (map (\<lambda>s. snd (rpcInvoke S c (srv_id s) msg)) servers))
     = map (\<lambda>s. (srv_id s, msg)) servers"
  by (induction servers) (simp_all add: dispatches_append rpcInvoke_started)

text \<open>
  Claim C2, as amended. In a broadcast call (routing key \<^verbatim>\<open>*\<close>) on a started client
  with a route context: when the server list of the message's server type is absent,
  the error is logged, nothing is dispatched and the promise stays pending. Otherwise
  the message is dispatched once to every server of the list, in list order; for an
  empty list nothing is dispatched and the aggregate callback is called at once
  without error. The promise is fulfilled with \<^verbatim>\<open>null\<close> exactly when every
  invocation has succeeded, and then not before the last of them has completed; it is
  fulfilled with an error as its value exactly when some invocation fails, and then
  at the time of the earliest failure, with that invocation's error; it is never
  rejected.
\<close>

theorem broadcast_dispatch:
  assumes "state c = STATE_STARTED"
    and "arguments = JString ''*'' # a # rest"
    and "msg = \<lparr> namespace = rec_namespace attach, serverType = rec_serverType attach,
                  service = serviceName, method_name = methodName, args = a # rest \<rparr>"
    and "c_routeContext c = Some routeContext"
    and "call = proxyCB R K S c serviceName methodName arguments attach True"
    and "joined = fst (rpcToSpecifiedServer S c msg (rec_serverType attach) (JString ''*''))"
  shows "(routeContext (rec_serverType attach) = None \<longrightarrow>
            call = (ReturnsPromise Pending,
                    [(STATE_STARTED, LogError ''[pinus-rpc] serverType %s servers not exist''
                                       [JString (rec_serverType attach)])]))
       \<and> (\<forall>servers. routeContext (rec_serverType attach) = Some servers \<longrightarrow>
            dispatches (snd call) = map (\<lambda>s. (srv_id s, msg)) servers
          \<and> (fst call = ReturnsPromise (Fulfilled JNull)
               \<longleftrightarrow> (\<forall>s\<in>set servers. \<exists>t v. S (srv_id s) msg = Reply t None v))
          \<and> ((\<exists>e. fst call = ReturnsPromise (Fulfilled (JError e)))
               \<longleftrightarrow> (\<exists>s\<in>set servers. \<exists>t e v. S (srv_id s) msg = Reply t (Some e) v))
          \<and> (\<forall>e. fst call \<noteq> ReturnsPromise (Rejected e))
          \<and> (servers = [] \<longrightarrow> joined = Cb (Reply 0 None JUndefined))
          \<and> (\<forall>t v. joined = Cb (Reply t None v) \<longrightarrow>
                (\<forall>s\<in>set servers. reply_time (S (srv_id s) msg) \<le> t))
          \<and> (\<forall>t e v. joined = Cb (Reply t (Some e) v) \<longrightarrow>
                fst call = ReturnsPromise (Fulfilled (JError e))
              \<and> (\<exists>s\<in>set servers. \<exists>v'. S (srv_id s) msg = Reply t (Some e) v')
              \<and> (\<forall>s\<in>set servers. \<forall>t' e' v'.
                    S (srv_id s) msg = Reply t' (Some e') v' \<longrightarrow> t \<le> t')))"
proof (intro conjI impI allI)
  have len: "2 \<le> length arguments" using assms(2) by simp
  have p: "call =
      (case rpcToSpecifiedServer S c msg (rec_serverType attach) (JString ''*'') of
         (Thrown e, tr) \<Rightarrow> (ReturnsPromise (Rejected e), tr)
       | (Cb r, tr) \<Rightarrow> (ReturnsPromise (settled r), tr))"
    using proxyCB_specified [OF assms(1) len, of R K S serviceName methodName attach] assms(2,3,5)
    by simp
  {
    assume "routeContext (rec_serverType attach) = None"
    then show "call = (ReturnsPromise Pending,
                    [(STATE_STARTED, LogError ''[pinus-rpc] serverType %s servers not exist''
                                       [JString (rec_serverType attach)])])"
      unfolding p using assms(1,4) by (simp add: rpcToSpecifiedServer_def emit_def)
  }
  fix servers
  assume sv: "routeContext (rec_serverType attach) = Some servers"
  define rs where "rs = map (\<lambda>s. next_err (S (srv_id s) msg)) servers"
  have star: "rpcToSpecifiedServer S c msg (rec_serverType attach) (JString ''*'')
      = (Cb (each_join rs), concat (map (\<lambda>s. snd (rpcInvoke S c (srv_id s) msg)) servers))"
    unfolding rs_def by (rule star_result [OF assms(1,4) sv])
  have call: "call = (ReturnsPromise (settled (each_join rs)),
                      concat (map (\<lambda>s. snd (rpcInvoke S c (srv_id s) msg)) servers))"
    unfolding p star by simp
  have joined: "joined = Cb (each_join rs)" unfolding assms(6) star by simp
  have ok: "(\<exists>t v. each_join rs = Reply t None v)
      \<longleftrightarrow> (\<forall>s\<in>set servers. \<exists>t v. S (srv_id s) msg = Reply t None v)"
    by (auto simp: each_join_ok rs_def next_err_simps)
  have err: "earliest_error rs = Some (t, e) \<Longrightarrow>
       (\<exists>s\<in>set servers. \<exists>v'. S (srv_id s) msg = Reply t (Some e) v')
     \<and> (\<forall>s\<in>set servers. \<forall>t' e' v'. S (srv_id s) msg = Reply t' (Some e') v' \<longrightarrow> t \<le> t')"
    for t e
  proof -
    assume h: "earliest_error rs = Some (t, e)"
    from earliest_error_Some [OF h]
    have 1: "\<exists>v. Reply t (Some e) v \<in> set rs"
      and 2: "\<forall>t' e' v'. Reply t' (Some e') v' \<in> set rs \<longrightarrow> t \<le> t'" by simp_all
    from 1 have a: "\<exists>s\<in>set servers. \<exists>v'. S (srv_id s) msg = Reply t (Some e) v'"
      by (auto simp: rs_def next_err_simps)
    have b: "\<forall>s\<in>set servers. \<forall>t' e' v'. S (srv_id s) msg = Reply t' (Some e') v' \<longrightarrow> t \<le> t'"
    proof (intro ballI allI impI)
      fix s t' e' v' assume s: "s \<in> set servers" and r: "S (srv_id s) msg = Reply t' (Some e') v'"
      then have "Reply t' (Some e') JUndefined \<in> set rs"
        unfolding rs_def by (force simp: image_iff)
      then show "t \<le> t'" using 2 by blast
    qed
    show ?thesis using a b by simp
  qed
  have anyerr: "(\<exists>t e. earliest_error rs = Some (t, e))
      \<longleftrightarrow> (\<exists>s\<in>set servers. \<exists>t e v. S (srv_id s) msg = Reply t (Some e) v)"
  proof
    assume "\<exists>t e. earliest_error rs = Some (t, e)"
    then show "\<exists>s\<in>set servers. \<exists>t e v. S (srv_id s) msg = Reply t (Some e) v"
      using err by blast
  next
    assume "\<exists>s\<in>set servers. \<exists>t e v. S (srv_id s) msg = Reply t (Some e) v"
    then obtain s t e v where "s \<in> set servers" "S (srv_id s) msg = Reply t (Some e) v" by blast
    then have "Reply t (Some e) JUndefined \<in> set rs" unfolding rs_def by (force simp: image_iff)
    then have "earliest_error rs \<noteq> None" unfolding earliest_error_None by blast
    then show "\<exists>t e. earliest_error rs = Some (t, e)" by auto
  qed
  show "dispatches (snd call) = map (\<lambda>s. (srv_id s, msg)) servers"
    unfolding call by (simp add: dispatches_concat [OF assms(1)])
  show "fst call = ReturnsPromise (Fulfilled JNull)
          \<longleftrightarrow> (\<forall>s\<in>set servers. \<exists>t v. S (srv_id s) msg = Reply t None v)"
    unfolding ok [symmetric] call by (cases "each_join rs" rule: settled.cases) simp_all
  show "(\<exists>e. fst call = ReturnsPromise (Fulfilled (JError e)))
          \<longleftrightarrow> (\<exists>s\<in>set servers. \<exists>t e v. S (srv_id s) msg = Reply t (Some e) v)"
    unfolding anyerr [symmetric] call by (simp add: settled_join_err)
  show "\<And>e. fst call \<noteq> ReturnsPromise (Rejected e)"
    unfolding call by (cases "each_join rs" rule: settled.cases) simp_all
  show "servers = [] \<Longrightarrow> joined = Cb (Reply 0 None JUndefined)"
    unfolding joined by (simp add: rs_def each_join_def)
  show "\<And>t v. joined = Cb (Reply t None v) \<Longrightarrow>
          \<forall>s\<in>set servers. reply_time (S (srv_id s) msg) \<le> t"
  proof
    fix t v s assume j: "joined = Cb (Reply t None v)" and s: "s \<in> set servers"
    from j joined have "each_join rs = Reply t None v" by simp
    then have t: "t = fold max (map reply_time rs) 0" by (simp add: each_join_ok)
    have "reply_time (next_err (S (srv_id s) msg)) \<in> set (map reply_time rs)"
      using s unfolding rs_def by (simp add: image_iff) blast
    then show "reply_time (S (srv_id s) msg) \<le> t"
      unfolding t using fold_max_ge [of 0 "map reply_time rs"] by (auto simp: next_err_simps)
  qed
  show "\<And>t e v. joined = Cb (Reply t (Some e) v) \<Longrightarrow>
          fst call = ReturnsPromise (Fulfilled (JError e))"
    using joined call by simp
  show "\<And>t e v. joined = Cb (Reply t (Some e) v) \<Longrightarrow>
          \<exists>s\<in>set servers. \<exists>v'. S (srv_id s) msg = Reply t (Some e) v'"
    using joined err by (simp add: each_join_err)
  show "\<And>t e v. joined = Cb (Reply t (Some e) v) \<Longrightarrow>
          \<forall>s\<in>set servers. \<forall>t' e' v'. S (srv_id s) msg = Reply t' (Some e') v' \<longrightarrow> t \<le> t'"
    using joined err by (simp add: each_join_err)
qed

theorem broadcast_dispatch_witness:
  "state started0 = STATE_STARTED
   \<and> c_routeContext started0 = Some rc0
   \<and> rc0 ''area'' = None
   \<and> proxyCB R0 K0 S1 started0 ''areaRemote'' ''enter'' [JString ''*'', JString ''hi''] attach1 True
       = (ReturnsPromise Pending,
          [(STATE_STARTED, LogError ''[pinus-rpc] serverType %s servers not exist''
                             [JString ''area''])])
   \<and> dispatches (snd (proxyCB R0 K0 S1 started0 ''chatRemote'' ''send''
                         [JString ''*'', JString ''hi''] attach0 True))
       = [(''chat-1'', msg0), (''chat-2'', msg0), (''chat-3'', msg0)]
   \<and> (\<exists>e. fst (proxyCB R0 K0 S1 started0 ''chatRemote'' ''send''
                  [JString ''*'', JString ''hi''] attach0 True)
            = ReturnsPromise (Fulfilled (JError e)))
   \<and> fst (proxyCB R0 K0 S0 started0 ''chatRemote'' ''send''
             [JString ''*'', JString ''hi''] attach0 True)
       = ReturnsPromise (Fulfilled JNull)
   \<and> rc0 ''gate'' = Some []
   \<and> fst (rpcToSpecifiedServer S0 started0
             \<lparr> namespace = ''user'', serverType = ''gate'', service = ''gateRemote'',
               method_name = ''enter'', args = [JString ''hi''] \<rparr> ''gate'' (JString ''*''))
       = Cb (Reply 0 None JUndefined)"
proof -
  have h1: "state started0 = STATE_STARTED" by (simp add: started0_fields)
  have h4: "c_routeContext started0 = Some rc0" by (simp add: started0_fields)
  have empty: "rc0 (rec_serverType attach4) = Some []" by (simp add: rc0_def attach4_def)
  have gate: "rc0 ''gate'' = Some []" by (simp add: rc0_def)
  have m0: "msg0 = \<lparr> namespace = rec_namespace attach0, serverType = rec_serverType attach0,
                     service = ''chatRemote'', method_name = ''send'', args = JString ''hi'' # [] \<rparr>"
    by (simp add: msg0_def attach0_def)
  have a: "[JString ''*'', JString ''hi''] = JString ''*'' # JString ''hi'' # []" by simp
  have none: "rc0 (rec_serverType attach1) = None" by (simp add: rc0_def attach1_def)
  have some: "rc0 (rec_serverType attach0) =
      Some [\<lparr> srv_id = ''chat-1'', srv_serverType = ''chat'' \<rparr>,
            \<lparr> srv_id = ''chat-2'', srv_serverType = ''chat'' \<rparr>,
            \<lparr> srv_id = ''chat-3'', srv_serverType = ''chat'' \<rparr>]"
    by (simp add: rc0_def attach0_def)
  show ?thesis
    using h1 h4 none some empty gate
      broadcast_dispatch [OF h1 a refl h4 refl refl,
        where R = R0 and K = K0 and S = S1 and serviceName = "''areaRemote''"
          and methodName = "''enter''" and attach = attach1]
      broadcast_dispatch [OF h1 a m0 h4 refl refl, where R = R0 and K = K0 and S = S1]
      broadcast_dispatch [OF h1 a m0 h4 refl refl, where R = R0 and K = K0 and S = S0]
      broadcast_dispatch [OF h1 a refl h4 refl refl,
        where R = R0 and K = K0 and S = S0 and serviceName = "''gateRemote''"
          and methodName = "''enter''" and attach = attach4]
    by (simp add: S1_def S0_def attach1_def attach4_def)
qed

text \<open>
  Against claim C2 as stated: a broadcast to a server type with no server list leaves the
  promise pending, and a broadcast to a server type whose list is empty fulfils it with
  \<^verbatim>\<open>null\<close>; neither delivers a failure. And when \<^verbatim>\<open>chat-2\<close> fails at time 1 while
  \<^verbatim>\<open>chat-1\<close> and \<^verbatim>\<open>chat-3\<close> complete at time 5, the aggregate callback is called with
  the error at time 1, before the other two invocations have completed, and the promise
  is fulfilled with that error as its value.
\<close>

theorem broadcast_no_failure_delivered:
  "proxyCB R0 K0 S0 started0 ''areaRemote'' ''enter'' [JString ''*'', JString ''hi''] attach1 True
     = (ReturnsPromise Pending,
        [(STATE_STARTED, LogError ''[pinus-rpc] serverType %s servers not exist''
                           [JString ''area''])])
   \<and> proxyCB R0 K0 S0 started0 ''gateRemote'' ''enter'' [JString ''*'', JString ''hi''] attach4 True
     = (ReturnsPromise (Fulfilled JNull), [])
   \<and> fst (rpcToSpecifiedServer S1 started0 msg0 ''chat'' (JString ''*''))
     = Cb (Reply 1 (Some (Error ''chat-2 is down'')) JUndefined)
   \<and> S1 ''chat-1'' msg0 = Reply 5 None (JString ''ok'')
   \<and> S1 ''chat-3'' msg0 = Reply 5 None (JString ''ok'')
   \<and> fst (proxyCB R0 K0 S1 started0 ''chatRemote'' ''send'' [JString ''*'', JString ''hi'']
             attach0 True)
     = ReturnsPromise (Fulfilled (JError (Error ''chat-2 is down'')))"
  by (simp add: proxyCB_def rpcToSpecifiedServer_def rpcInvoke_def started0_fields emit_def
        Let_def attach0_def attach1_def attach4_def rc0_def async_each_def each_join_def S1_def)

subsection \<open>The proxy registry\<close>














end
